theory Spec2Isabelle
  imports Complex_Main "HOL-Library.Signed_Division" "HOL-Library.Log_Nat"
    "HOL-Library.List_Lexorder" "HOL-Library.Char_ord"
begin

chapter \<open>The model: server.js as functions on explicit state\<close>

section \<open>Uptime formatting (\<^verbatim>\<open>formatUptime\<close>, server.js 480-499)\<close>

text \<open>
  JavaScript renders an integral number in a template literal as its decimal digits,
  with a leading minus sign when it is negative. The model agrees with JavaScript for
  integers of magnitude below \<open>2^53\<close>, where a double holds every integer exactly.
\<close>

definition digit_char :: "nat \<Rightarrow> char" where
  "digit_char d = ''0123456789'' ! d"

fun show_nat :: "nat \<Rightarrow> string" where
  "show_nat n =
     (if n < 10 then [digit_char n] else show_nat (n div 10) @ [digit_char (n mod 10)])"

definition show_int :: "int \<Rightarrow> string" where
  "show_int i = (if i < 0 then CHR ''-'' # show_nat (nat (- i)) else show_nat (nat i))"

text \<open>\<^verbatim>\<open>parts.join(' ')\<close>: the parts with the separator between neighbours.\<close>

fun join :: "string \<Rightarrow> string list \<Rightarrow> string" where
  "join sep [] = []"
| "join sep [p] = p"
| "join sep (p # q # ps) = p @ sep @ join sep (q # ps)"

text \<open>
  \<^verbatim>\<open>formatUptime(seconds)\<close>. The argument is the (fractional) number of seconds that
  \<^verbatim>\<open>process.uptime()\<close> returns. \<^verbatim>\<open>Math.floor(x / k)\<close> on an integral \<open>x\<close> is the
  floored quotient \<open>div\<close>; JavaScript's \<^verbatim>\<open>%\<close> takes the sign of the dividend, which
  is \<open>smod\<close>. Each \<^verbatim>\<open>parts.push\<close> appends at the end of the array.
\<close>

definition formatUptime :: "rat \<Rightarrow> string" where
  "formatUptime seconds0 =
    (let seconds1 = \<lfloor>seconds0\<rfloor>;
         days = seconds1 div 86400;
         seconds2 = seconds1 smod 86400;
         hours = seconds2 div 3600;
         seconds3 = seconds2 smod 3600;
         minutes = seconds3 div 60;
         remainingSeconds = seconds3 smod 60;
         parts0 = [];
         parts1 = (if days > 0 then parts0 @ [show_int days @ ''d''] else parts0);
         parts2 = (if hours > 0 then parts1 @ [show_int hours @ ''h''] else parts1);
         parts3 = (if minutes > 0 then parts2 @ [show_int minutes @ ''m''] else parts2);
         parts4 = (if length parts3 = 0 \<or> remainingSeconds > 0
                   then parts3 @ [show_int remainingSeconds @ ''s''] else parts3)
     in join '' '' parts4)"

text \<open>
  The rendering as the specification words it, for an uptime of \<open>d\<close> days, \<open>h\<close> hours,
  \<open>m\<close> minutes and \<open>s\<close> seconds: a zero unit of days, hours or minutes is left out, and
  the seconds are shown when they are non-zero or when every other unit is zero.
\<close>

definition uptime_spec :: "nat \<Rightarrow> nat \<Rightarrow> nat \<Rightarrow> nat \<Rightarrow> string" where
  "uptime_spec d h m s = join '' ''
     ((if d > 0 then [show_nat d @ ''d''] else []) @
      (if h > 0 then [show_nat h @ ''h''] else []) @
      (if m > 0 then [show_nat m @ ''m''] else []) @
      (if s > 0 \<or> (d = 0 \<and> h = 0 \<and> m = 0) then [show_nat s @ ''s''] else []))"

section \<open>The connection cache (\<^verbatim>\<open>connectDB\<close>, server.js 26-60; \<^verbatim>\<open>ensureDbConnection\<close>, 157-165)\<close>

text \<open>
  The value a successful \<^verbatim>\<open>mongoose.connect\<close> resolves to is the mongoose module
  object; a failed call of \<^verbatim>\<open>connectDB\<close> throws either its own error about the
  missing connection string or the error the connection attempt was rejected with.
\<close>

datatype connection = Mongoose

datatype connect_error = MongoUriNotDefined | AtlasConnectionError string

text \<open>
  A promise is modelled by what it settles to: awaiting it yields that outcome, for the
  caller that created it and for every later caller that finds it in the cache.
\<close>

type_synonym promise = "connect_error + connection"

record cache =
  conn :: "connection option"
  promise :: "promise option"

text \<open>
  The process: the process-wide \<^verbatim>\<open>cached\<close> object, and the number of calls of
  \<^verbatim>\<open>mongoose.connect\<close> made so far. The environment: the connection string
  \<^verbatim>\<open>process.env.MONGO_URI\<close> (\<open>None\<close> when it is undefined) and, for each connection
  attempt in turn, whether the remote store rejects it (with which reason) or accepts it.
\<close>

record process =
  cached :: cache
  attempts :: nat

record environment =
  atlasURI :: "string option"
  mongoose_connect :: "nat \<Rightarrow> string + connection"

text \<open>\<^verbatim>\<open>!atlasURI\<close>: undefined and the empty string are falsy.\<close>

definition uri_falsy :: "string option \<Rightarrow> bool" where
  "uri_falsy u = (case u of None \<Rightarrow> True | Some s \<Rightarrow> s = [])"

text \<open>
  \<^verbatim>\<open>cached.conn = await cached.promise; return cached.conn\<close>: a rejected promise
  throws at the \<^verbatim>\<open>await\<close>, before the assignment.
\<close>

definition await_promise :: "promise \<Rightarrow> process \<Rightarrow> (connect_error + connection) \<times> process" where
  "await_promise pr p =
     (case pr of
        Inl err \<Rightarrow> (Inl err, p)
      | Inr h \<Rightarrow> (Inr h, p\<lparr>cached := (cached p)\<lparr>conn := Some h\<rparr>\<rparr>))"

definition connectDB :: "environment \<Rightarrow> process \<Rightarrow> (connect_error + connection) \<times> process" where
  "connectDB env p =
     (case conn (cached p) of
        Some c \<Rightarrow> (Inr c, p)
      | None \<Rightarrow>
          (case promise (cached p) of
             None \<Rightarrow>
               if uri_falsy (atlasURI env) then (Inl MongoUriNotDefined, p)
               else
                 let pr = (case mongoose_connect env (attempts p) of
                             Inl err \<Rightarrow> Inl (AtlasConnectionError err)
                           | Inr h \<Rightarrow> Inr h);
                     p1 = p\<lparr>cached := (cached p)\<lparr>promise := Some pr\<rparr>,
                            attempts := attempts p + 1\<rparr>
                 in await_promise pr p1
           | Some pr \<Rightarrow> await_promise pr p))"

text \<open>
  The middleware in front of every \<^verbatim>\<open>/api\<close> route: it passes the request on
  (\<^verbatim>\<open>next()\<close>) or answers 503 itself.
\<close>

datatype middleware_result = Next | Unavailable nat string

definition ensureDbConnection :: "environment \<Rightarrow> process \<Rightarrow> middleware_result \<times> process" where
  "ensureDbConnection env p =
     (case connectDB env p of
        (Inr h, p1) \<Rightarrow> (Next, p1)
      | (Inl err, p1) \<Rightarrow> (Unavailable 503 ''Database connection unavailable'', p1))"

text \<open>A sequence of \<open>n\<close> calls, one after the other, with the results in order.\<close>

fun connectDB_calls ::
  "environment \<Rightarrow> nat \<Rightarrow> process \<Rightarrow> (connect_error + connection) list \<times> process" where
  "connectDB_calls env 0 p = ([], p)"
| "connectDB_calls env (Suc n) p =
     (case connectDB env p of
        (r, p1) \<Rightarrow> (case connectDB_calls env n p1 of (rs, p2) \<Rightarrow> (r # rs, p2)))"

text \<open>
  A cold start whose first connection attempt is refused while every later attempt
  would be accepted.
\<close>

definition cold_start :: process where
  "cold_start = \<lparr>cached = \<lparr>conn = None, promise = None\<rparr>, attempts = 0\<rparr>"

definition refused_once :: environment where
  "refused_once =
     \<lparr>atlasURI = Some ''mongodb+srv://cluster0.example.net/school'',
      mongoose_connect = (\<lambda>k. if k = 0 then Inl ''ECONNREFUSED'' else Inr Mongoose)\<rparr>"

section \<open>Documents and collections (the schemas, server.js 128-152)\<close>

text \<open>
  An ObjectId is twelve bytes; it is modelled by the number those bytes spell. The two
  schemas declare five and four fields, \<^verbatim>\<open>timestamps: true\<close> adds \<^verbatim>\<open>createdAt\<close> and
  \<^verbatim>\<open>updatedAt\<close>, and the store adds \<^verbatim>\<open>_id\<close>. Dates are milliseconds since the epoch.
  Strings are lists of characters, one \<open>char\<close> per character (ASCII text).
\<close>

type_synonym objectid = nat

record student =
  s_id :: objectid
  s_name :: string
  s_email :: string
  s_course :: string
  s_enrollmentDate :: int
  s_status :: string
  s_createdAt :: int
  s_updatedAt :: int

record course =
  c_id :: objectid
  c_name :: string
  c_description :: string
  c_duration :: rat
  c_status :: string
  c_createdAt :: int
  c_updatedAt :: int

text \<open>
  A request body (\<^verbatim>\<open>req.body\<close>) gives each field of the schema or leaves it out. A
  value for a Date or a Number field may be one that mongoose cannot cast to that type.
\<close>

datatype 'a castable = Absent | Uncastable | Given 'a

record student_body =
  b_name :: "string option"
  b_email :: "string option"
  b_course :: "string option"
  b_enrollmentDate :: "int castable"
  b_status :: "string option"

record course_body =
  cb_name :: "string option"
  cb_description :: "string option"
  cb_duration :: "rat castable"
  cb_status :: "string option"

text \<open>
  The store: the two collections in their natural order, and the log of the model
  methods the handlers have called (the latest call last). The log is how a statement
  can say that a handler answered without asking the store.
\<close>

datatype collection = Students | Courses

datatype operation =
  Find | FindById | Save | FindByIdAndUpdate | FindByIdAndDelete | CountDocuments | Aggregate

record db =
  students :: "student list"
  courses :: "course list"
  calls :: "(collection \<times> operation) list"

definition called :: "collection \<Rightarrow> operation \<Rightarrow> db \<Rightarrow> db" where
  "called c m d = d\<lparr>calls := calls d @ [(c, m)]\<rparr>"

text \<open>
  The errors mongoose throws at the handlers: a request value that cannot be cast to
  the type of its path, a document that fails the schema's validators, and the store's
  duplicate-key error (E11000) for a unique index: \<^verbatim>\<open>_id\<close> in both collections, and
  the indexes the schemas declare with \<^verbatim>\<open>unique: true\<close>, on \<^verbatim>\<open>email\<close> of a student and
  on \<^verbatim>\<open>name\<close> of a course.
\<close>

datatype store_error = CastError | ValidationError | DuplicateKeyError

fun remove_first :: "('a \<Rightarrow> bool) \<Rightarrow> 'a list \<Rightarrow> 'a list" where
  "remove_first P [] = []"
| "remove_first P (x # xs) = (if P x then xs else x # remove_first P xs)"

fun replace_first :: "('a \<Rightarrow> bool) \<Rightarrow> 'a \<Rightarrow> 'a list \<Rightarrow> 'a list" where
  "replace_first P y [] = []"
| "replace_first P y (x # xs) = (if P x then y # xs else x # replace_first P y xs)"

subsection \<open>Queries\<close>

definition Student_find :: "(student \<Rightarrow> bool) \<Rightarrow> db \<Rightarrow> student list \<times> db" where
  "Student_find flt d = (filter flt (students d), called Students Find d)"

definition Course_find :: "(course \<Rightarrow> bool) \<Rightarrow> db \<Rightarrow> course list \<times> db" where
  "Course_find flt d = (filter flt (courses d), called Courses Find d)"

definition Student_countDocuments :: "(student \<Rightarrow> bool) \<Rightarrow> db \<Rightarrow> nat \<times> db" where
  "Student_countDocuments flt d =
     (length (filter flt (students d)), called Students CountDocuments d)"

definition Course_countDocuments :: "(course \<Rightarrow> bool) \<Rightarrow> db \<Rightarrow> nat \<times> db" where
  "Course_countDocuments flt d =
     (length (filter flt (courses d)), called Courses CountDocuments d)"

text \<open>
  \<^verbatim>\<open>Student.aggregate([{ $group: { _id: '$course', count: { $sum: 1 } } }])\<close>: one
  group for each value of \<^verbatim>\<open>course\<close> that occurs, with the number of students that
  have it.
\<close>

definition Student_aggregate_group_course :: "db \<Rightarrow> (string \<times> nat) list \<times> db" where
  "Student_aggregate_group_course d =
     (map (\<lambda>c. (c, length (filter (\<lambda>s. s_course s = c) (students d))))
        (remdups (map s_course (students d))),
      called Students Aggregate d)"

text \<open>
  The methods that take an identifier cast the request's string to an ObjectId first;
  \<open>cast\<close> is that cast (bson's), \<open>None\<close> when it throws.
\<close>

definition Student_findById ::
  "(string \<Rightarrow> objectid option) \<Rightarrow> string \<Rightarrow> db \<Rightarrow> (store_error + student option) \<times> db" where
  "Student_findById cast idstr d =
     (case cast idstr of
        None \<Rightarrow> (Inl CastError, called Students FindById d)
      | Some oid \<Rightarrow> (Inr (find (\<lambda>s. s_id s = oid) (students d)), called Students FindById d))"

definition Course_findById ::
  "(string \<Rightarrow> objectid option) \<Rightarrow> string \<Rightarrow> db \<Rightarrow> (store_error + course option) \<times> db" where
  "Course_findById cast idstr d =
     (case cast idstr of
        None \<Rightarrow> (Inl CastError, called Courses FindById d)
      | Some oid \<Rightarrow> (Inr (find (\<lambda>c. c_id c = oid) (courses d)), called Courses FindById d))"

subsection \<open>Deleting\<close>

definition Student_findByIdAndDelete ::
  "(string \<Rightarrow> objectid option) \<Rightarrow> string \<Rightarrow> db \<Rightarrow> (store_error + student option) \<times> db" where
  "Student_findByIdAndDelete cast idstr d =
     (let d1 = called Students FindByIdAndDelete d in
      case cast idstr of
        None \<Rightarrow> (Inl CastError, d1)
      | Some oid \<Rightarrow>
          (case find (\<lambda>s. s_id s = oid) (students d1) of
             None \<Rightarrow> (Inr None, d1)
           | Some s \<Rightarrow>
               (Inr (Some s), d1\<lparr>students := remove_first (\<lambda>s. s_id s = oid) (students d1)\<rparr>)))"

definition Course_findByIdAndDelete ::
  "(string \<Rightarrow> objectid option) \<Rightarrow> string \<Rightarrow> db \<Rightarrow> (store_error + course option) \<times> db" where
  "Course_findByIdAndDelete cast idstr d =
     (let d1 = called Courses FindByIdAndDelete d in
      case cast idstr of
        None \<Rightarrow> (Inl CastError, d1)
      | Some oid \<Rightarrow>
          (case find (\<lambda>c. c_id c = oid) (courses d1) of
             None \<Rightarrow> (Inr None, d1)
           | Some c \<Rightarrow>
               (Inr (Some c), d1\<lparr>courses := remove_first (\<lambda>c. c_id c = oid) (courses d1)\<rparr>)))"

subsection \<open>Creating\<close>

text \<open>
  \<^verbatim>\<open>new Student(req.body)\<close> followed by the validation \<^verbatim>\<open>save()\<close> runs first: a
  required String must be there and not empty, the required Date must be there and
  castable, a status that is given must be one of the enum's, one that is not given is
  \<^verbatim>\<open>active\<close>. \<open>None\<close> is the validation error. \<open>now\<close> is the time of the call and
  \<open>new_id\<close> the identifier the driver generates for the document.
\<close>

definition status_of :: "string option \<Rightarrow> string option" where
  "status_of st =
     (case st of
        None \<Rightarrow> Some ''active''
      | Some v \<Rightarrow> if v = ''active'' \<or> v = ''inactive'' then Some v else None)"

definition new_Student :: "int \<Rightarrow> objectid \<Rightarrow> student_body \<Rightarrow> student option" where
  "new_Student now new_id b =
     (case (b_name b, b_email b, b_course b, b_enrollmentDate b, status_of (b_status b)) of
        (Some n, Some e, Some c, Given date, Some st) \<Rightarrow>
          if n = [] \<or> e = [] \<or> c = [] then None
          else Some \<lparr>s_id = new_id, s_name = n, s_email = e, s_course = c,
                      s_enrollmentDate = date, s_status = st,
                      s_createdAt = now, s_updatedAt = now\<rparr>
      | _ \<Rightarrow> None)"

definition new_Course :: "int \<Rightarrow> objectid \<Rightarrow> course_body \<Rightarrow> course option" where
  "new_Course now new_id b =
     (case (cb_name b, cb_description b, cb_duration b, status_of (cb_status b)) of
        (Some n, Some ds, Given du, Some st) \<Rightarrow>
          if n = [] \<or> ds = [] then None
          else Some \<lparr>c_id = new_id, c_name = n, c_description = ds, c_duration = du,
                      c_status = st, c_createdAt = now, c_updatedAt = now\<rparr>
      | _ \<Rightarrow> None)"

text \<open>
  \<^verbatim>\<open>save()\<close>: the validation, then the insert, which the store refuses when the
  identifier or the unique key is already in the collection.
\<close>

definition Student_save ::
  "int \<Rightarrow> objectid \<Rightarrow> student_body \<Rightarrow> db \<Rightarrow> (store_error + student) \<times> db" where
  "Student_save now new_id b d =
     (let d1 = called Students Save d in
      case new_Student now new_id b of
        None \<Rightarrow> (Inl ValidationError, d1)
      | Some doc \<Rightarrow>
          if \<exists>s \<in> set (students d1). s_id s = s_id doc \<or> s_email s = s_email doc
          then (Inl DuplicateKeyError, d1)
          else (Inr doc, d1\<lparr>students := students d1 @ [doc]\<rparr>))"

definition Course_save ::
  "int \<Rightarrow> objectid \<Rightarrow> course_body \<Rightarrow> db \<Rightarrow> (store_error + course) \<times> db" where
  "Course_save now new_id b d =
     (let d1 = called Courses Save d in
      case new_Course now new_id b of
        None \<Rightarrow> (Inl ValidationError, d1)
      | Some doc \<Rightarrow>
          if \<exists>c \<in> set (courses d1). c_id c = c_id doc \<or> c_name c = c_name doc
          then (Inl DuplicateKeyError, d1)
          else (Inr doc, d1\<lparr>courses := courses d1 @ [doc]\<rparr>))"

subsection \<open>Updating\<close>

text \<open>
  \<^verbatim>\<open>findByIdAndUpdate(req.params.id, req.body, { new: true })\<close> sets the fields the body gives
  and \<^verbatim>\<open>updatedAt\<close>; it runs no validator. The casts of the identifier and of the
  body come before the query. The store refuses an update that would give the document
  a unique key another document has.
\<close>

definition or_else :: "'a option \<Rightarrow> 'a \<Rightarrow> 'a" where
  "or_else given old = (case given of None \<Rightarrow> old | Some v \<Rightarrow> v)"

definition given_or :: "'a castable \<Rightarrow> 'a \<Rightarrow> 'a" where
  "given_or given old = (case given of Given v \<Rightarrow> v | _ \<Rightarrow> old)"

definition update_student :: "int \<Rightarrow> student_body \<Rightarrow> student \<Rightarrow> student" where
  "update_student now b s =
     s\<lparr>s_name := or_else (b_name b) (s_name s),
       s_email := or_else (b_email b) (s_email s),
       s_course := or_else (b_course b) (s_course s),
       s_enrollmentDate := given_or (b_enrollmentDate b) (s_enrollmentDate s),
       s_status := or_else (b_status b) (s_status s),
       s_updatedAt := now\<rparr>"

definition update_course :: "int \<Rightarrow> course_body \<Rightarrow> course \<Rightarrow> course" where
  "update_course now b c =
     c\<lparr>c_name := or_else (cb_name b) (c_name c),
       c_description := or_else (cb_description b) (c_description c),
       c_duration := given_or (cb_duration b) (c_duration c),
       c_status := or_else (cb_status b) (c_status c),
       c_updatedAt := now\<rparr>"

definition Student_findByIdAndUpdate ::
  "(string \<Rightarrow> objectid option) \<Rightarrow> int \<Rightarrow> string \<Rightarrow> student_body \<Rightarrow> db
     \<Rightarrow> (store_error + student option) \<times> db" where
  "Student_findByIdAndUpdate cast now idstr b d =
     (let d1 = called Students FindByIdAndUpdate d in
      case cast idstr of
        None \<Rightarrow> (Inl CastError, d1)
      | Some oid \<Rightarrow>
          if b_enrollmentDate b = Uncastable then (Inl CastError, d1)
          else
            (case find (\<lambda>s. s_id s = oid) (students d1) of
               None \<Rightarrow> (Inr None, d1)
             | Some s \<Rightarrow>
                 let s1 = update_student now b s in
                 if s_email s1 \<noteq> s_email s \<and>
                    s_email s1 \<in> set (map s_email (remove_first (\<lambda>s. s_id s = oid) (students d1)))
                 then (Inl DuplicateKeyError, d1)
                 else (Inr (Some s1),
                       d1\<lparr>students := replace_first (\<lambda>s. s_id s = oid) s1 (students d1)\<rparr>)))"

definition Course_findByIdAndUpdate ::
  "(string \<Rightarrow> objectid option) \<Rightarrow> int \<Rightarrow> string \<Rightarrow> course_body \<Rightarrow> db
     \<Rightarrow> (store_error + course option) \<times> db" where
  "Course_findByIdAndUpdate cast now idstr b d =
     (let d1 = called Courses FindByIdAndUpdate d in
      case cast idstr of
        None \<Rightarrow> (Inl CastError, d1)
      | Some oid \<Rightarrow>
          if cb_duration b = Uncastable then (Inl CastError, d1)
          else
            (case find (\<lambda>c. c_id c = oid) (courses d1) of
               None \<Rightarrow> (Inr None, d1)
             | Some c \<Rightarrow>
                 let c1 = update_course now b c in
                 if c_name c1 \<noteq> c_name c \<and>
                    c_name c1 \<in> set (map c_name (remove_first (\<lambda>c. c_id c = oid) (courses d1)))
                 then (Inl DuplicateKeyError, d1)
                 else (Inr (Some c1),
                       d1\<lparr>courses := replace_first (\<lambda>c. c_id c = oid) c1 (courses d1)\<rparr>)))"

section \<open>JavaScript numbers\<close>

text \<open>
  A JavaScript number is an IEEE 754 double, and \<^verbatim>\<open>/\<close> and \<^verbatim>\<open>*\<close> give the double
  nearest to the exact result, a tie going to the one with the even significand. A
  double is modelled by the rational it denotes. \<open>ilog2 x\<close> is the exponent \<open>e\<close> with
  \<open>2^e \<le> x < 2^(e+1)\<close>, for a positive \<open>x\<close>; \<open>to_double\<close> rounds to 53 significant
  bits. Magnitudes outside the range of normal doubles (below \<open>2^-1022\<close>, or \<open>2^1024\<close>
  and above) are outside the model.
\<close>

definition ilog2 :: "rat \<Rightarrow> int" where
  "ilog2 x = (if 1 \<le> x then bitlen \<lfloor>x\<rfloor> - 1 else - bitlen (\<lceil>1 / x\<rceil> - 1))"

definition round_half_even :: "rat \<Rightarrow> int" where
  "round_half_even q =
     (let f = \<lfloor>q\<rfloor>; r = q - of_int f
      in if r < 1 / 2 then f else if 1 / 2 < r then f + 1 else if even f then f else f + 1)"

definition to_double :: "rat \<Rightarrow> rat" where
  "to_double x =
     (if x = 0 then 0
      else let a = \<bar>x\<bar>; e = ilog2 a - 52; m = round_half_even (a / 2 powi e)
           in sgn x * of_int m * 2 powi e)"

definition js_divide :: "rat \<Rightarrow> rat \<Rightarrow> rat" where
  "js_divide a b = to_double (a / b)"

definition js_times :: "rat \<Rightarrow> rat \<Rightarrow> rat" where
  "js_times a b = to_double (a * b)"

text \<open>
  \<^verbatim>\<open>Math.round\<close>: the nearest integer, the larger one when two are equally near. It
  is exact: it works on the double it is given.
\<close>

definition Math_round :: "rat \<Rightarrow> int" where
  "Math_round x = \<lfloor>x + 1 / 2\<rfloor>"

section \<open>Regular expressions of the store (\<^verbatim>\<open>$regex\<close> with \<^verbatim>\<open>$options: "i"\<close>)\<close>

text \<open>
  The store reads the string it is given as a Perl-compatible regular expression and
  looks for a match anywhere in the field. The model covers the patterns built from
  literal characters and the alternation bar: such a pattern matches a subject when one
  of its alternatives occurs in it, the letters \<open>A\<close> to \<open>Z\<close> compared without regard to
  case. A pattern with any other metacharacter, or with the character NUL, is outside the
  model (\<open>None\<close>).
\<close>

definition regex_metachars :: string where
  "regex_metachars = [CHR 0x5C, CHR ''^'', CHR ''$'', CHR ''.'', CHR ''['', CHR '']'', CHR ''|'',
     CHR ''('', CHR '')'', CHR ''?'', CHR ''*'', CHR ''+'', CHR ''{'', CHR ''}'']"

definition lower_char :: "char \<Rightarrow> char" where
  "lower_char c =
     (case map_of (zip ''ABCDEFGHIJKLMNOPQRSTUVWXYZ'' ''abcdefghijklmnopqrstuvwxyz'') c of
        None \<Rightarrow> c
      | Some l \<Rightarrow> l)"

fun match_here :: "string \<Rightarrow> string \<Rightarrow> bool" where
  "match_here [] subject = True"
| "match_here (p # ps) [] = False"
| "match_here (p # ps) (c # cs) = (lower_char p = lower_char c \<and> match_here ps cs)"

fun search_literal :: "string \<Rightarrow> string \<Rightarrow> bool" where
  "search_literal lit [] = match_here lit []"
| "search_literal lit (c # cs) = (match_here lit (c # cs) \<or> search_literal lit cs)"

fun split_alternatives :: "string \<Rightarrow> string list" where
  "split_alternatives [] = [[]]"
| "split_alternatives (c # cs) =
     (if c = CHR ''|'' then [] # split_alternatives cs
      else (case split_alternatives cs of
              [] \<Rightarrow> [[c]]
            | alt # alts \<Rightarrow> (c # alt) # alts))"

definition regex_i :: "string \<Rightarrow> (string \<Rightarrow> bool) option" where
  "regex_i pattern =
     (if \<exists>c \<in> set pattern. (c \<in> set regex_metachars \<and> c \<noteq> CHR ''|'') \<or> c = CHR 0x00
      then None
      else Some (\<lambda>subject. \<exists>alt \<in> set (split_alternatives pattern). search_literal alt subject))"

text \<open>
  What the specification asks of the search: the field contains the query as a literal
  substring, case-insensitively. \<open>contains_ci\<close> decides it by trying each position.
\<close>

definition literal_substring_ci :: "string \<Rightarrow> string \<Rightarrow> bool" where
  "literal_substring_ci field q =
     (\<exists>before after. map lower_char field = before @ map lower_char q @ after)"

fun is_prefix :: "'a list \<Rightarrow> 'a list \<Rightarrow> bool" where
  "is_prefix [] ys = True"
| "is_prefix (x # xs) [] = False"
| "is_prefix (x # xs) (y # ys) = (x = y \<and> is_prefix xs ys)"

fun is_infix :: "'a list \<Rightarrow> 'a list \<Rightarrow> bool" where
  "is_infix xs [] = (xs = [])"
| "is_infix xs (y # ys) = (is_prefix xs (y # ys) \<or> is_infix xs ys)"

definition contains_ci :: "string \<Rightarrow> string \<Rightarrow> bool" where
  "contains_ci field q = is_infix (map lower_char q) (map lower_char field)"

section \<open>The route handlers (server.js 175-420)\<close>

text \<open>
  A response is its status code and its JSON body. A body is a message, the message of
  an error the store threw, one document or an array of documents, or the dashboard's
  statistics. Failures of the transport to the store are outside the model.
\<close>

record stats =
  totalStudents :: nat
  activeStudents :: nat
  totalCourses :: nat
  activeCourses :: nat
  graduates :: nat
  courseCounts :: "(string \<times> nat) list"
  successRate :: int

datatype payload =
    Message string
  | ErrorMessage store_error
  | StudentDoc student
  | StudentDocs "student list"
  | CourseDoc course
  | CourseDocs "course list"
  | Stats stats

type_synonym response = "nat \<times> payload"

subsection \<open>Course routes\<close>

text \<open>\<^verbatim>\<open>app.get('/api/courses')\<close>: all courses, by name ascending.\<close>

definition get_api_courses :: "db \<Rightarrow> response \<times> db" where
  "get_api_courses d =
     (let (found, d1) = Course_find (\<lambda>c. True) d
      in ((200, CourseDocs (sort_key c_name found)), d1))"

text \<open>\<^verbatim>\<open>app.post("/api/courses")\<close>.\<close>

definition post_api_courses :: "int \<Rightarrow> objectid \<Rightarrow> course_body \<Rightarrow> db \<Rightarrow> response \<times> db" where
  "post_api_courses now new_id body d =
     (case Course_save now new_id body d of
        (Inr savedCourse, d1) \<Rightarrow> ((201, CourseDoc savedCourse), d1)
      | (Inl error, d1) \<Rightarrow> ((400, ErrorMessage error), d1))"

text \<open>\<^verbatim>\<open>app.put("/api/courses/:id")\<close>.\<close>

definition put_api_courses_id ::
  "(string \<Rightarrow> objectid option) \<Rightarrow> int \<Rightarrow> string \<Rightarrow> course_body \<Rightarrow> db \<Rightarrow> response \<times> db" where
  "put_api_courses_id cast now idstr body d =
     (case Course_findByIdAndUpdate cast now idstr body d of
        (Inr None, d1) \<Rightarrow> ((404, Message ''Course not found''), d1)
      | (Inr (Some course), d1) \<Rightarrow> ((200, CourseDoc course), d1)
      | (Inl error, d1) \<Rightarrow> ((400, ErrorMessage error), d1))"

text \<open>
  \<^verbatim>\<open>app.delete("/api/courses/:id")\<close>: the students whose \<^verbatim>\<open>course\<close> is the
  request's identifier are counted first; the deletion is tried only when there are
  none.
\<close>

definition delete_api_courses_id ::
  "(string \<Rightarrow> objectid option) \<Rightarrow> string \<Rightarrow> db \<Rightarrow> response \<times> db" where
  "delete_api_courses_id cast idstr d =
     (let (enrolledStudents, d1) = Student_countDocuments (\<lambda>s. s_course s = idstr) d
      in if enrolledStudents > 0
         then ((400, Message ''Cannot delete course with enrolled students''), d1)
         else
           (case Course_findByIdAndDelete cast idstr d1 of
              (Inr None, d2) \<Rightarrow> ((404, Message ''Course not found''), d2)
            | (Inr (Some course), d2) \<Rightarrow> ((200, Message ''Course deleted successfully''), d2)
            | (Inl error, d2) \<Rightarrow> ((500, ErrorMessage error), d2)))"

text \<open>\<^verbatim>\<open>app.get("/api/courses/:id")\<close>.\<close>

definition get_api_courses_id ::
  "(string \<Rightarrow> objectid option) \<Rightarrow> string \<Rightarrow> db \<Rightarrow> response \<times> db" where
  "get_api_courses_id cast idstr d =
     (case Course_findById cast idstr d of
        (Inr None, d1) \<Rightarrow> ((404, Message ''Course not found''), d1)
      | (Inr (Some course), d1) \<Rightarrow> ((200, CourseDoc course), d1)
      | (Inl error, d1) \<Rightarrow> ((500, ErrorMessage error), d1))"

subsection \<open>Student routes\<close>

text \<open>
  \<^verbatim>\<open>app.get("/api/students")\<close>: all students, by creation time descending. (The
  store does not say in which order documents with equal keys come; the model keeps
  them in their natural order.)
\<close>

definition get_api_students :: "db \<Rightarrow> response \<times> db" where
  "get_api_students d =
     (let (found, d1) = Student_find (\<lambda>s. True) d
      in ((200, StudentDocs (sort_key (\<lambda>s. - s_createdAt s) found)), d1))"

text \<open>\<^verbatim>\<open>app.post("/api/students")\<close>.\<close>

definition post_api_students :: "int \<Rightarrow> objectid \<Rightarrow> student_body \<Rightarrow> db \<Rightarrow> response \<times> db" where
  "post_api_students now new_id body d =
     (case Student_save now new_id body d of
        (Inr savedStudent, d1) \<Rightarrow> ((201, StudentDoc savedStudent), d1)
      | (Inl error, d1) \<Rightarrow> ((400, ErrorMessage error), d1))"

text \<open>\<^verbatim>\<open>app.put("/api/students/:id")\<close>.\<close>

definition put_api_students_id ::
  "(string \<Rightarrow> objectid option) \<Rightarrow> int \<Rightarrow> string \<Rightarrow> student_body \<Rightarrow> db \<Rightarrow> response \<times> db" where
  "put_api_students_id cast now idstr body d =
     (case Student_findByIdAndUpdate cast now idstr body d of
        (Inr None, d1) \<Rightarrow> ((404, Message ''Student not found''), d1)
      | (Inr (Some student), d1) \<Rightarrow> ((200, StudentDoc student), d1)
      | (Inl error, d1) \<Rightarrow> ((400, ErrorMessage error), d1))"

text \<open>\<^verbatim>\<open>app.delete("/api/students/:id")\<close>.\<close>

definition delete_api_students_id ::
  "(string \<Rightarrow> objectid option) \<Rightarrow> string \<Rightarrow> db \<Rightarrow> response \<times> db" where
  "delete_api_students_id cast idstr d =
     (case Student_findByIdAndDelete cast idstr d of
        (Inr None, d1) \<Rightarrow> ((404, Message ''Student not found''), d1)
      | (Inr (Some student), d1) \<Rightarrow> ((200, Message ''Student deleted successfully''), d1)
      | (Inl error, d1) \<Rightarrow> ((500, ErrorMessage error), d1))"

text \<open>
  \<^verbatim>\<open>app.get("/api/students/search")\<close>: the query string goes to the store as the
  regular expression of three conditions joined by \<^verbatim>\<open>$or\<close>, on \<^verbatim>\<open>name\<close>, \<^verbatim>\<open>course\<close>
  and \<^verbatim>\<open>email\<close>. The response is \<open>None\<close> for a pattern outside the model.
\<close>

definition get_api_students_search :: "string \<Rightarrow> db \<Rightarrow> response option \<times> db" where
  "get_api_students_search searchTerm d =
     (case regex_i searchTerm of
        None \<Rightarrow> (None, called Students Find d)
      | Some matches \<Rightarrow>
          (let (found, d1) =
                 Student_find
                   (\<lambda>s. matches (s_name s) \<or> matches (s_course s) \<or> matches (s_email s)) d
           in (Some (200, StudentDocs found), d1)))"

text \<open>
  \<^verbatim>\<open>app.get("/api/students/:id")\<close>: \<^verbatim>\<open>mongoose.Types.ObjectId.isValid\<close> accepts the
  strings that the cast to an ObjectId accepts.
\<close>

definition isValid :: "(string \<Rightarrow> objectid option) \<Rightarrow> string \<Rightarrow> bool" where
  "isValid cast idstr = (cast idstr \<noteq> None)"

definition get_api_students_id ::
  "(string \<Rightarrow> objectid option) \<Rightarrow> string \<Rightarrow> db \<Rightarrow> response \<times> db" where
  "get_api_students_id cast idstr d =
     (if \<not> isValid cast idstr then ((400, Message ''Invalid student ID format''), d)
      else
        (case Student_findById cast idstr d of
           (Inr None, d1) \<Rightarrow> ((404, Message ''Student not found''), d1)
         | (Inr (Some student), d1) \<Rightarrow> ((200, StudentDoc student), d1)
         | (Inl error, d1) \<Rightarrow> ((500, ErrorMessage error), d1)))"

subsection \<open>Dashboard\<close>

text \<open>\<^verbatim>\<open>getDashboardStats()\<close>, server.js 401-420: six queries, one after the other.\<close>

definition getDashboardStats :: "db \<Rightarrow> stats \<times> db" where
  "getDashboardStats d =
     (let (n_totalStudents, d1) = Student_countDocuments (\<lambda>s. True) d;
          (n_activeStudents, d2) = Student_countDocuments (\<lambda>s. s_status s = ''active'') d1;
          (n_totalCourses, d3) = Course_countDocuments (\<lambda>c. True) d2;
          (n_activeCourses, d4) = Course_countDocuments (\<lambda>c. c_status c = ''active'') d3;
          (n_graduates, d5) = Student_countDocuments (\<lambda>s. s_status s = ''inactive'') d4;
          (groups, d6) = Student_aggregate_group_course d5
      in (\<lparr>totalStudents = n_totalStudents,
           activeStudents = n_activeStudents,
           totalCourses = n_totalCourses,
           activeCourses = n_activeCourses,
           graduates = n_graduates,
           courseCounts = groups,
           successRate =
             (if n_totalStudents > 0
              then Math_round (js_times (js_divide (of_nat n_graduates) (of_nat n_totalStudents)) 100)
              else 0)\<rparr>,
          d6))"

text \<open>\<^verbatim>\<open>app.get('/api/dashboard/stats')\<close>.\<close>

definition get_api_dashboard_stats :: "db \<Rightarrow> response \<times> db" where
  "get_api_dashboard_stats d = (case getDashboardStats d of (st, d1) \<Rightarrow> ((200, Stats st), d1))"

subsection \<open>The API as a whole\<close>

text \<open>
  A request to one of the twelve routes, and the server's step on it. \<open>lib_cast\<close> is
  the library's cast of identifier strings; \<open>clock\<close> and \<open>fresh_id\<close> are the time and
  the identifier the request meets. Express tries the routes in the order of their
  registration, and the search is registered before \<open>/api/students/:id\<close>: the path
  \<open>/api/students/search\<close> is a search, and never reaches the handler of an identifier.
\<close>

datatype request =
    GET_courses
  | POST_courses course_body
  | PUT_courses_id string course_body
  | DELETE_courses_id string
  | GET_courses_id string
  | GET_students
  | POST_students student_body
  | PUT_students_id string student_body
  | DELETE_students_id string
  | GET_students_search string
  | GET_students_id string
  | GET_dashboard_stats

record runtime =
  lib_cast :: "string \<Rightarrow> objectid option"
  clock :: int
  fresh_id :: objectid

definition answered :: "response \<times> db \<Rightarrow> response option \<times> db" where
  "answered r = (Some (fst r), snd r)"

fun api :: "runtime \<Rightarrow> request \<Rightarrow> db \<Rightarrow> response option \<times> db" where
  "api rt GET_courses d = answered (get_api_courses d)"
| "api rt (POST_courses body) d = answered (post_api_courses (clock rt) (fresh_id rt) body d)"
| "api rt (PUT_courses_id idstr body) d =
     answered (put_api_courses_id (lib_cast rt) (clock rt) idstr body d)"
| "api rt (DELETE_courses_id idstr) d = answered (delete_api_courses_id (lib_cast rt) idstr d)"
| "api rt (GET_courses_id idstr) d = answered (get_api_courses_id (lib_cast rt) idstr d)"
| "api rt GET_students d = answered (get_api_students d)"
| "api rt (POST_students body) d = answered (post_api_students (clock rt) (fresh_id rt) body d)"
| "api rt (PUT_students_id idstr body) d =
     answered (put_api_students_id (lib_cast rt) (clock rt) idstr body d)"
| "api rt (DELETE_students_id idstr) d = answered (delete_api_students_id (lib_cast rt) idstr d)"
| "api rt (GET_students_search q) d = get_api_students_search q d"
| "api rt (GET_students_id idstr) d = answered (get_api_students_id (lib_cast rt) idstr d)"
| "api rt GET_dashboard_stats d = answered (get_api_dashboard_stats d)"

text \<open>
  \<^verbatim>\<open>app.use('/api', ensureDbConnection)\<close>: every request to the API goes through the
  middleware first, which answers it or passes it on to its route.
\<close>

definition api_request ::
  "environment \<Rightarrow> runtime \<Rightarrow> request \<Rightarrow> process \<times> db
     \<Rightarrow> response option \<times> process \<times> db" where
  "api_request env rt req s =
     (case ensureDbConnection env (fst s) of
        (Unavailable code message, p1) \<Rightarrow> (Some (code, Message message), p1, snd s)
      | (Next, p1) \<Rightarrow> (case api rt req (snd s) of (r, d1) \<Rightarrow> (r, p1, d1)))"

section \<open>The invariant of the student collection\<close>

text \<open>No two students share an email.\<close>

definition emails_unique :: "db \<Rightarrow> bool" where
  "emails_unique d = distinct (map s_email (students d))"

section \<open>Example data\<close>

text \<open>
  The cast of the common form of an identifier, 24 hexadecimal digits, to the number
  they spell; other strings are refused.
\<close>

definition hex_digit :: "char \<Rightarrow> nat option" where
  "hex_digit c =
     map_of (zip ''0123456789abcdefABCDEF''
               [0, 1, 2, 3, 4, 5, 6, 7, 8, 9, 10, 11, 12, 13, 14, 15, 10, 11, 12, 13, 14, 15]) c"

fun hex_number :: "nat \<Rightarrow> string \<Rightarrow> nat option" where
  "hex_number acc [] = Some acc"
| "hex_number acc (c # cs) =
     (case hex_digit c of None \<Rightarrow> None | Some v \<Rightarrow> hex_number (16 * acc + v) cs)"

definition hex24 :: "string \<Rightarrow> objectid option" where
  "hex24 s = (if length s = 24 then hex_number 0 s else None)"

text \<open>A small school: two courses and three students, one of them enrolled by identifier.\<close>

definition algebra :: course where
  "algebra = \<lparr>c_id = 0xA1, c_name = ''Algebra'', c_description = ''Groups and rings'',
     c_duration = 12, c_status = ''active'', c_createdAt = 1000, c_updatedAt = 1000\<rparr>"

definition botany :: course where
  "botany = \<lparr>c_id = 0xB2, c_name = ''Botany'', c_description = ''Plants'',
     c_duration = 8, c_status = ''inactive'', c_createdAt = 2000, c_updatedAt = 2000\<rparr>"

definition ada :: student where
  "ada = \<lparr>s_id = 1, s_name = ''Ada'', s_email = ''ada@example.org'',
     s_course = ''0000000000000000000000a1'', s_enrollmentDate = 500, s_status = ''active'',
     s_createdAt = 3000, s_updatedAt = 3000\<rparr>"

definition bob :: student where
  "bob = \<lparr>s_id = 2, s_name = ''Bob'', s_email = ''bob@example.org'',
     s_course = ''Algebra'', s_enrollmentDate = 600, s_status = ''inactive'',
     s_createdAt = 4000, s_updatedAt = 4000\<rparr>"

definition cyd :: student where
  "cyd = \<lparr>s_id = 3, s_name = ''Cyd'', s_email = ''cyd@example.org'',
     s_course = ''Algebra'', s_enrollmentDate = 700, s_status = ''active'',
     s_createdAt = 5000, s_updatedAt = 5000\<rparr>"

definition school :: db where
  "school = \<lparr>students = [ada, bob, cyd], courses = [algebra, botany], calls = []\<rparr>"

text \<open>A student whose \<^verbatim>\<open>course\<close> names an identifier no course has.\<close>

definition orphans :: db where
  "orphans = \<lparr>students = [ada], courses = [botany], calls = []\<rparr>"


text \<open>
  Request bodies: a complete student with Ada's email, the same without a name, and an
  update that asks for Ada's email. The runtime of the examples.
\<close>

definition ada_again :: student_body where
  "ada_again = \<lparr>b_name = Some ''Ada II'', b_email = Some ''ada@example.org'',
     b_course = Some ''Algebra'', b_enrollmentDate = Given 800, b_status = None\<rparr>"

definition nameless :: student_body where
  "nameless = \<lparr>b_name = None, b_email = Some ''ada@example.org'',
     b_course = Some ''Algebra'', b_enrollmentDate = Given 800, b_status = None\<rparr>"

definition take_adas_email :: student_body where
  "take_adas_email = \<lparr>b_name = None, b_email = Some ''ada@example.org'',
     b_course = None, b_enrollmentDate = Absent, b_status = None\<rparr>"

definition office :: runtime where
  "office = \<lparr>lib_cast = hex24, clock = 9000, fresh_id = 4\<rparr>"





chapter \<open>Verification\<close>

section \<open>The uptime rendering\<close>

lemma smod_nonneg: "0 \<le> a \<Longrightarrow> 0 < b \<Longrightarrow> (a::int) smod b = a mod b"
  by (simp add: signed_modulo_int_def sgn_if)

lemma floor_nat_frac: "0 \<le> f \<Longrightarrow> f < 1 \<Longrightarrow> \<lfloor>of_nat n + (f::rat)\<rfloor> = int n"
  by (simp add: floor_unique)

lemma formatUptime_decomposed:
  assumes "h < 24" "m < 60" "s < 60" "0 \<le> f" "f < 1"
  shows "formatUptime (of_nat (d * 86400 + h * 3600 + m * 60 + s) + f) = uptime_spec d h m s"
proof -
  let ?n = "d * 86400 + h * 3600 + m * 60 + s"
  let ?r = "h * 3600 + m * 60 + s"
  let ?q = "m * 60 + s"
  have fl: "\<lfloor>of_nat ?n + f\<rfloor> = int ?n"
    using assms by (simp only: floor_nat_frac)
  have rlt: "?r < 86400" and qlt: "?q < 3600" using assms by simp_all
  have nd: "?n div 86400 = d" and nr: "?n mod 86400 = ?r"
    using rlt by (simp_all add: add.assoc)
  have nh: "?r div 3600 = h" and nq: "?r mod 3600 = ?q"
    using qlt by (simp_all add: add.assoc)
  have nm: "?q div 60 = m" and ns: "?q mod 60 = s"
    using assms by simp_all
  have d: "int ?n div 86400 = int d"
    using nd by (metis of_nat_numeral zdiv_int)
  have r: "int ?n smod 86400 = int ?r"
    using nr by (subst smod_nonneg)
      (simp_all only: of_nat_0_le_iff zero_less_numeral, metis of_nat_numeral zmod_int)
  have h: "int ?r div 3600 = int h"
    using nh by (metis of_nat_numeral zdiv_int)
  have q: "int ?r smod 3600 = int ?q"
    using nq by (subst smod_nonneg)
      (simp_all only: of_nat_0_le_iff zero_less_numeral, metis of_nat_numeral zmod_int)
  have m: "int ?q div 60 = int m"
    using nm by (metis of_nat_numeral zdiv_int)
  have s: "int ?q smod 60 = int s"
    using ns by (subst smod_nonneg)
      (simp_all only: of_nat_0_le_iff zero_less_numeral, metis of_nat_numeral zmod_int)
  show ?thesis
    unfolding formatUptime_def Let_def fl d r h q m s
    by (simp add: uptime_spec_def show_int_def)
qed

lemma formatUptime_examples:
  "formatUptime 0 = ''0s''" "formatUptime 90 = ''1m 30s''" "formatUptime 86461 = ''1d 1m 1s''"
  by (simp_all add: formatUptime_def show_int_def digit_char_def signed_modulo_int_def Let_def)

text \<open>
  Claim C2, as the code has it: \<open>formatUptime\<close> maps 0 seconds to \<open>0s\<close>, 90 seconds to
  \<open>1m 30s\<close> and 86461 seconds to \<open>1d 1m 1s\<close> (the zero hours are left out); in general,
  for an uptime below \<open>2^53\<close> seconds made of \<open>d\<close> days, \<open>h < 24\<close> hours, \<open>m < 60\<close> minutes,
  \<open>s < 60\<close> seconds and a fraction of a second, it renders the non-zero units among days,
  hours and minutes, and the seconds whenever they are non-zero or every other unit is
  zero.
\<close>

theorem formatUptime_renders_nonzero_units:
  "formatUptime 0 = ''0s'' \<and> formatUptime 90 = ''1m 30s'' \<and> formatUptime 86461 = ''1d 1m 1s'' \<and>
   (\<forall>d h m s f. h < 24 \<and> m < 60 \<and> s < 60 \<and> 0 \<le> f \<and> f < 1 \<and>
        d * 86400 + h * 3600 + m * 60 + s < 2 ^ 53 \<longrightarrow>
      formatUptime (of_nat (d * 86400 + h * 3600 + m * 60 + s) + f) = uptime_spec d h m s)"
  using formatUptime_examples formatUptime_decomposed by blast

theorem formatUptime_renders_nonzero_units_witness:
  "formatUptime (of_nat (1 * 86400 + 0 * 3600 + 1 * 60 + 1) + 1 / 2) = ''1d 1m 1s'' \<and>
   uptime_spec 1 0 1 1 = ''1d 1m 1s''"
proof -
  have u: "uptime_spec 1 0 1 1 = ''1d 1m 1s''"
    by (simp add: uptime_spec_def digit_char_def)
  have "(0::nat) < 24 \<and> (1::nat) < 60 \<and> (1::nat) < 60 \<and> (0::rat) \<le> 1 / 2 \<and> (1 / 2 :: rat) < 1 \<and>
        (1::nat) * 86400 + 0 * 3600 + 1 * 60 + 1 < 2 ^ 53"
    by simp
  with formatUptime_renders_nonzero_units
  have "formatUptime (of_nat (1 * 86400 + 0 * 3600 + 1 * 60 + 1) + 1 / 2) = uptime_spec 1 0 1 1"
    by blast
  with u show ?thesis by simp
qed

theorem formatUptime_86461_counterexample:
  "formatUptime 86461 \<noteq> ''1d 0h 1m 1s''"
  by (simp add: formatUptime_def show_int_def digit_char_def signed_modulo_int_def Let_def)

section \<open>Rounding to a double\<close>
















section \<open>The connection cache after a failure\<close>

lemma await_promise_rejected: "await_promise (Inl err) p = (Inl err, p)"
  by (simp add: await_promise_def)

lemma connectDB_failure_state:
  assumes "connectDB env p = (Inl err, p1)"
  shows "conn (cached p1) = None \<and>
         (promise (cached p1) = Some (Inl err) \<or>
          (promise (cached p1) = None \<and> uri_falsy (atlasURI env) \<and> err = MongoUriNotDefined))"
  using assms
  by (auto simp: connectDB_def await_promise_def Let_def
           split: option.splits sum.splits if_splits)

lemma connectDB_failure_repeats:
  assumes "connectDB env p = (Inl err, p1)"
  shows "connectDB env p1 = (Inl err, p1)"
  using connectDB_failure_state [OF assms]
  by (auto simp: connectDB_def await_promise_def)

lemma connectDB_calls_after_failure:
  assumes "connectDB env p1 = (Inl err, p1)"
  shows "connectDB_calls env n p1 = (replicate n (Inl err), p1)"
  using assms by (induction n) simp_all

text \<open>
  What the code does after a failure: once a call of \<open>connectDB\<close> has failed, every
  later call fails with the same error, leaves the cache as it is and starts no
  connection attempt, and the middleware answers every request to the API with 503,
  before its route. The \<^verbatim>\<open>catch\<close> of lines 51-54 rethrows without clearing
  \<open>cached.promise\<close>, so the rejected promise is awaited again by every later call.
\<close>

lemma connectDB_failure_is_cached:
  assumes "connectDB env p = (Inl err, p1)"
  shows "connectDB_calls env n p1 = (replicate n (Inl err), p1) \<and>
         attempts (snd (connectDB_calls env n p1)) = attempts p1 \<and>
         ensureDbConnection env p1 = (Unavailable 503 ''Database connection unavailable'', p1) \<and>
         api_request env rt req (p1, d) =
           (Some (503, Message ''Database connection unavailable''), p1, d)"
proof -
  have again: "connectDB env p1 = (Inl err, p1)"
    using assms by (rule connectDB_failure_repeats)
  then have "connectDB_calls env n p1 = (replicate n (Inl err), p1)"
    by (rule connectDB_calls_after_failure)
  moreover have mw:
    "ensureDbConnection env p1 = (Unavailable 503 ''Database connection unavailable'', p1)"
    using again by (simp add: ensureDbConnection_def)
  moreover have "api_request env rt req (p1, d) =
      (Some (503, Message ''Database connection unavailable''), p1, d)"
    by (simp add: api_request_def mw)
  ultimately show ?thesis by simp
qed

lemma refused_once_first_call:
  "connectDB refused_once cold_start =
     (Inl (AtlasConnectionError ''ECONNREFUSED''),
      \<lparr>cached = \<lparr>conn = None, promise = Some (Inl (AtlasConnectionError ''ECONNREFUSED''))\<rparr>,
       attempts = 1\<rparr>)"
  by (simp add: connectDB_def refused_once_def cold_start_def uri_falsy_def await_promise_def
           Let_def)

lemma connectDB_failure_is_cached_example:
  "connectDB_calls refused_once 3 (snd (connectDB refused_once cold_start)) =
     (replicate 3 (Inl (AtlasConnectionError ''ECONNREFUSED'')),
      snd (connectDB refused_once cold_start)) \<and>
   attempts (snd (connectDB_calls refused_once 3 (snd (connectDB refused_once cold_start)))) = 1 \<and>
   fst (api_request refused_once office GET_students
          (snd (connectDB refused_once cold_start), school)) =
     Some (503, Message ''Database connection unavailable'')"
  using connectDB_failure_is_cached [of refused_once cold_start
      "AtlasConnectionError ''ECONNREFUSED''" "snd (connectDB refused_once cold_start)" 3
      office GET_students school]
  by (simp add: refused_once_first_call)

text \<open>
  Claim C1 asks that, after a call whose connection attempt failed, a later call of
  \<open>connectDB\<close> starts a new attempt. The code does not do so, against its own comment
  at line 159 (the call \<open>uses the cached connection or establishes a new one\<close>): from a
  cold start, with a first attempt that is refused and a second that would be accepted,
  the first call fails after one attempt, and the second call returns the failure of the
  first without making the second attempt.
\<close>

theorem connectDB_second_call_makes_no_attempt:
  "fst (connectDB refused_once cold_start) = Inl (AtlasConnectionError ''ECONNREFUSED'') \<and>
   attempts (snd (connectDB refused_once cold_start)) = 1 \<and>
   mongoose_connect refused_once 1 = Inr Mongoose \<and>
   fst (connectDB refused_once (snd (connectDB refused_once cold_start))) =
     Inl (AtlasConnectionError ''ECONNREFUSED'') \<and>
   attempts (snd (connectDB refused_once (snd (connectDB refused_once cold_start)))) = 1"
  by (simp add: refused_once_first_call)
     (simp add: connectDB_def refused_once_def await_promise_def)

section \<open>Deleting a course, and fetching a student\<close>

lemma hex24_a1: "hex24 ''0000000000000000000000a1'' = Some 0xA1"
  by (simp add: hex24_def hex_digit_def)

lemma count_pos_iff: "0 < length (filter P xs) \<longleftrightarrow> (\<exists>x \<in> set xs. P x)"
  by (simp add: filter_empty_conv)

lemma delete_refused:
  assumes "\<exists>s \<in> set (students d). s_course s = idstr"
  shows "delete_api_courses_id cast idstr d =
           ((400, Message ''Cannot delete course with enrolled students''),
            called Students CountDocuments d)"
proof -
  have "0 < length (filter (\<lambda>s. s_course s = idstr) (students d))"
    using assms by (simp only: count_pos_iff)
  then show ?thesis
    by (simp add: delete_api_courses_id_def Student_countDocuments_def)
qed

lemma called_students [simp]: "students (called c m d) = students d"
  and called_courses [simp]: "courses (called c m d) = courses d"
  and called_calls [simp]: "calls (called c m d) = calls d @ [(c, m)]"
  by (simp_all add: called_def)

lemma get_course_called:
  "fst (get_api_courses_id cast idstr (called c m d)) = fst (get_api_courses_id cast idstr d)"
  by (simp add: get_api_courses_id_def Course_findById_def split: option.splits)

text \<open>
  Claim C4: when some student's \<open>course\<close> equals the identifier string of the request,
  DELETE \<open>/api/courses/:id\<close> answers 400 with the message of the conflict, and both
  collections are as they were: a GET of the course answers afterwards what it answered
  before.
\<close>

theorem delete_course_with_students_is_refused:
  assumes "\<exists>s \<in> set (students d). s_course s = idstr"
  shows "fst (delete_api_courses_id cast idstr d) =
           (400, Message ''Cannot delete course with enrolled students'') \<and>
         students (snd (delete_api_courses_id cast idstr d)) = students d \<and>
         courses (snd (delete_api_courses_id cast idstr d)) = courses d \<and>
         fst (get_api_courses_id cast idstr (snd (delete_api_courses_id cast idstr d))) =
           fst (get_api_courses_id cast idstr d)"
  by (simp add: delete_refused [OF assms] get_course_called)

theorem delete_course_with_students_is_refused_witness:
  "fst (delete_api_courses_id hex24 ''0000000000000000000000a1'' school) =
     (400, Message ''Cannot delete course with enrolled students'') \<and>
   courses (snd (delete_api_courses_id hex24 ''0000000000000000000000a1'' school)) =
     [algebra, botany] \<and>
   fst (get_api_courses_id hex24 ''0000000000000000000000a1''
          (snd (delete_api_courses_id hex24 ''0000000000000000000000a1'' school))) =
     (200, CourseDoc algebra)"
proof -
  have enrolled: "\<exists>s \<in> set (students school). s_course s = ''0000000000000000000000a1''"
    by (simp add: school_def ada_def)
  have before: "fst (get_api_courses_id hex24 ''0000000000000000000000a1'' school) =
      (200, CourseDoc algebra)"
    by (simp add: get_api_courses_id_def Course_findById_def hex24_a1 school_def algebra_def)
  show ?thesis
    using delete_course_with_students_is_refused
            [of school "''0000000000000000000000a1''" hex24] enrolled before
    by (simp add: school_def)
qed

text \<open>
  Claim C9: the count of the dependent students comes before the look for the course:
  when no course has the identifier of the request but some student's \<open>course\<close> equals
  the identifier string, the handler answers 400 (\<open>Cannot delete course with enrolled
  students\<close>), not 404, and the only call it has made is the count.
\<close>

theorem delete_course_counts_before_it_looks:
  assumes "\<forall>c \<in> set (courses d). cast idstr \<noteq> Some (c_id c)"
    and "\<exists>s \<in> set (students d). s_course s = idstr"
  shows "fst (delete_api_courses_id cast idstr d) =
           (400, Message ''Cannot delete course with enrolled students'') \<and>
         fst (delete_api_courses_id cast idstr d) \<noteq> (404, Message ''Course not found'') \<and>
         calls (snd (delete_api_courses_id cast idstr d)) =
           calls d @ [(Students, CountDocuments)]"
  by (simp add: delete_refused [OF assms(2)])

theorem delete_course_counts_before_it_looks_witness:
  "fst (get_api_courses_id hex24 ''0000000000000000000000a1'' orphans) =
     (404, Message ''Course not found'') \<and>
   fst (delete_api_courses_id hex24 ''0000000000000000000000a1'' orphans) =
     (400, Message ''Cannot delete course with enrolled students'') \<and>
   calls (snd (delete_api_courses_id hex24 ''0000000000000000000000a1'' orphans)) =
     [(Students, CountDocuments)]"
proof -
  have absent: "\<forall>c \<in> set (courses orphans). hex24 ''0000000000000000000000a1'' \<noteq> Some (c_id c)"
    by (simp add: orphans_def hex24_a1 botany_def)
  have enrolled: "\<exists>s \<in> set (students orphans). s_course s = ''0000000000000000000000a1''"
    by (simp add: orphans_def ada_def)
  have get: "fst (get_api_courses_id hex24 ''0000000000000000000000a1'' orphans) =
      (404, Message ''Course not found'')"
    by (simp add: get_api_courses_id_def Course_findById_def hex24_a1 orphans_def botany_def)
  show ?thesis
    using delete_course_counts_before_it_looks
            [of orphans hex24 "''0000000000000000000000a1''"] absent enrolled get
    by (simp add: orphans_def)
qed


lemma find_remove_first:
  assumes "distinct (map f xs)"
  shows "find (\<lambda>x. f x = k) (remove_first (\<lambda>x. f x = k) xs) = None"
  using assms
proof (induction xs)
  case Nil
  then show ?case by simp
next
  case (Cons x xs)
  show ?case
  proof (cases "f x = k")
    case True
    with Cons.prems have "\<forall>y \<in> set xs. f y \<noteq> k" by (force simp: image_iff)
    with True show ?thesis by (simp add: find_None_iff)
  next
    case False
    with Cons show ?thesis by simp
  qed
qed

lemma find_Some_iff_mem:
  "(\<exists>x. find P xs = Some x) \<longleftrightarrow> (\<exists>x \<in> set xs. P x)"
  by (induction xs) auto

text \<open>
  Claim C8: when course \<open>c\<close> is in the store (whose identifiers are distinct), the request
  names it, and no student's \<open>course\<close> equals the identifier string, the deletion answers
  200 with its confirmation, and a GET of the same identifier on the state it leaves
  answers 404.
\<close>

theorem delete_unreferenced_course_then_get:
  assumes "distinct (map c_id (courses d))"
    and "c \<in> set (courses d)"
    and "cast idstr = Some (c_id c)"
    and "\<forall>s \<in> set (students d). s_course s \<noteq> idstr"
  shows "fst (delete_api_courses_id cast idstr d) = (200, Message ''Course deleted successfully'') \<and>
         fst (get_api_courses_id cast idstr (snd (delete_api_courses_id cast idstr d))) =
           (404, Message ''Course not found'') \<and>
         c \<notin> set (courses (snd (delete_api_courses_id cast idstr d)))"
proof -
  let ?P = "\<lambda>x. c_id x = c_id c"
  have none: "filter (\<lambda>s. s_course s = idstr) (students d) = []"
    using assms(4) by (simp add: filter_empty_conv)
  from assms(2) have "\<exists>x \<in> set (courses d). ?P x" by blast
  then obtain c0 where c0: "find ?P (courses d) = Some c0"
    using find_Some_iff_mem [of ?P "courses d"] by blast
  have gone: "find ?P (remove_first ?P (courses d)) = None"
    using assms(1) by (rule find_remove_first)
  have del: "delete_api_courses_id cast idstr d =
      ((200, Message ''Course deleted successfully''),
       (called Courses FindByIdAndDelete (called Students CountDocuments d))
         \<lparr>courses := remove_first ?P (courses d)\<rparr>)"
    by (simp add: delete_api_courses_id_def Student_countDocuments_def none
          Course_findByIdAndDelete_def assms(3) c0 Let_def)
  have "c \<notin> set (remove_first ?P (courses d))"
    using gone by (auto simp: find_None_iff)
  then show ?thesis
    by (simp add: del get_api_courses_id_def Course_findById_def assms(3) gone)
qed

lemma hex24_b2: "hex24 ''0000000000000000000000b2'' = Some 0xB2"
  by (simp add: hex24_def hex_digit_def)

theorem delete_unreferenced_course_then_get_witness:
  "fst (delete_api_courses_id hex24 ''0000000000000000000000b2'' school) =
     (200, Message ''Course deleted successfully'') \<and>
   fst (get_api_courses_id hex24 ''0000000000000000000000b2''
          (snd (delete_api_courses_id hex24 ''0000000000000000000000b2'' school))) =
     (404, Message ''Course not found'')"
proof -
  have ids: "distinct (map c_id (courses school))"
    by (simp add: school_def algebra_def botany_def)
  have there: "botany \<in> set (courses school)"
    by (simp add: school_def)
  have cast: "hex24 ''0000000000000000000000b2'' = Some (c_id botany)"
    by (simp add: hex24_b2 botany_def)
  have free: "\<forall>s \<in> set (students school). s_course s \<noteq> ''0000000000000000000000b2''"
    by (simp add: school_def ada_def bob_def cyd_def)
  show ?thesis
    using delete_unreferenced_course_then_get
            [of school botany hex24 "''0000000000000000000000b2''"] ids there cast free
    by simp
qed

text \<open>
  Claim C5: GET \<open>/api/students/:id\<close> answers 400 to an identifier that is not well-formed
  and leaves the store and its call log as they were; it answers 404 to a well-formed
  identifier that no student has; and when a student has it, it answers 200 with that
  student's record.
\<close>

theorem get_student_by_id_responses:
  "(\<not> isValid cast idstr \<longrightarrow>
      get_api_students_id cast idstr d = ((400, Message ''Invalid student ID format''), d) \<and>
      calls (snd (get_api_students_id cast idstr d)) = calls d) \<and>
   (\<forall>oid. cast idstr = Some oid \<and> (\<forall>s \<in> set (students d). s_id s \<noteq> oid) \<longrightarrow>
      fst (get_api_students_id cast idstr d) = (404, Message ''Student not found'')) \<and>
   (\<forall>oid. cast idstr = Some oid \<and> (\<exists>s \<in> set (students d). s_id s = oid) \<longrightarrow>
      (\<exists>s \<in> set (students d). s_id s = oid \<and>
         fst (get_api_students_id cast idstr d) = (200, StudentDoc s)))"
proof -
  have invalid: "get_api_students_id cast idstr d =
        ((400, Message ''Invalid student ID format''), d) \<and>
      calls (snd (get_api_students_id cast idstr d)) = calls d"
    if "\<not> isValid cast idstr"
    using that by (simp add: get_api_students_id_def)
  have absent: "fst (get_api_students_id cast idstr d) = (404, Message ''Student not found'')"
    if a: "cast idstr = Some oid \<and> (\<forall>s \<in> set (students d). s_id s \<noteq> oid)" for oid
  proof -
    from a have "find (\<lambda>s. s_id s = oid) (students d) = None"
      by (simp add: find_None_iff)
    with a show ?thesis
      by (simp add: get_api_students_id_def isValid_def Student_findById_def)
  qed
  have present: "\<exists>s \<in> set (students d). s_id s = oid \<and>
      fst (get_api_students_id cast idstr d) = (200, StudentDoc s)"
    if a: "cast idstr = Some oid \<and> (\<exists>s \<in> set (students d). s_id s = oid)" for oid
  proof -
    from a obtain s where s: "find (\<lambda>s. s_id s = oid) (students d) = Some s"
      using find_Some_iff_mem [of "\<lambda>s. s_id s = oid" "students d"] by blast
    then have "s \<in> set (students d)" "s_id s = oid"
      by (auto simp: find_Some_iff)
    moreover have "fst (get_api_students_id cast idstr d) = (200, StudentDoc s)"
      using a s by (simp add: get_api_students_id_def isValid_def Student_findById_def)
    ultimately show ?thesis by blast
  qed
  from invalid absent present show ?thesis by blast
qed

lemma hex24_refuses_nope: "hex24 ''nope'' = None"
  by (simp add: hex24_def)

lemma hex24_2: "hex24 ''000000000000000000000002'' = Some 2"
  by (simp add: hex24_def hex_digit_def)

lemma hex24_9: "hex24 ''000000000000000000000009'' = Some 9"
  by (simp add: hex24_def hex_digit_def)

theorem get_student_by_id_responses_witness:
  "get_api_students_id hex24 ''nope'' school = ((400, Message ''Invalid student ID format''), school) \<and>
   fst (get_api_students_id hex24 ''000000000000000000000009'' school) =
     (404, Message ''Student not found'') \<and>
   fst (get_api_students_id hex24 ''000000000000000000000002'' school) = (200, StudentDoc bob)"
proof -
  have bad: "\<not> isValid hex24 ''nope''"
    by (simp add: isValid_def hex24_refuses_nope)
  have absent: "\<forall>s \<in> set (students school). s_id s \<noteq> 9"
    by (simp add: school_def ada_def bob_def cyd_def)
  have present: "\<exists>s \<in> set (students school). s_id s = 2"
    by (simp add: school_def bob_def)
  have only_bob: "\<forall>s \<in> set (students school). s_id s = 2 \<longrightarrow> s = bob"
    by (simp add: school_def ada_def bob_def cyd_def)
  have c1: "get_api_students_id hex24 ''nope'' school =
      ((400, Message ''Invalid student ID format''), school)"
    using get_student_by_id_responses [of hex24 "''nope''" school] bad by blast
  have c2: "fst (get_api_students_id hex24 ''000000000000000000000009'' school) =
      (404, Message ''Student not found'')"
    using get_student_by_id_responses [of hex24 "''000000000000000000000009''" school]
      hex24_9 absent by blast
  have "\<exists>s \<in> set (students school). s_id s = 2 \<and>
      fst (get_api_students_id hex24 ''000000000000000000000002'' school) = (200, StudentDoc s)"
    using get_student_by_id_responses [of hex24 "''000000000000000000000002''" school]
      hex24_2 present by blast
  with only_bob have c3:
    "fst (get_api_students_id hex24 ''000000000000000000000002'' school) = (200, StudentDoc bob)"
    by auto
  from c1 c2 c3 show ?thesis by simp
qed

section \<open>The dashboard's counts\<close>

lemma count_list_map_filter:
  "count_list (map f xs) c = length (filter (\<lambda>x. f x = c) xs)"
  by (induction xs) auto

lemma group_counts_sum:
  "sum_list (map (\<lambda>c. length (filter (\<lambda>x. f x = c) xs)) (remdups (map f xs))) = length xs"
proof -
  have eq: "(\<lambda>c. length (filter (\<lambda>x. f x = c) xs)) = count_list (map f xs)"
    by (rule ext) (simp add: count_list_map_filter)
  have "sum_list (map (count_list (map f xs)) (remdups (map f xs))) =
        sum (count_list (map f xs)) (set (map f xs))"
    by (simp add: sum_list_distinct_conv_sum_set)
  also have "\<dots> = length (map f xs)"
    by (rule sum_count_set) simp_all
  finally show ?thesis
    unfolding eq by simp
qed

lemma two_way_split:
  assumes "\<forall>x \<in> set xs. P x \<or> Q x" and "\<forall>x \<in> set xs. \<not> (P x \<and> Q x)"
  shows "length xs = length (filter P xs) + length (filter Q xs)"
proof -
  have "filter Q xs = filter (\<lambda>x. \<not> P x) xs"
    using assms by (intro filter_cong) auto
  then show ?thesis
    by (simp add: sum_length_filter_compl)
qed

lemma getDashboardStats_fields:
  "totalStudents (fst (getDashboardStats d)) = length (students d)"
  "activeStudents (fst (getDashboardStats d)) =
     length (filter (\<lambda>s. s_status s = ''active'') (students d))"
  "graduates (fst (getDashboardStats d)) =
     length (filter (\<lambda>s. s_status s = ''inactive'') (students d))"
  "courseCounts (fst (getDashboardStats d)) =
     map (\<lambda>c. (c, length (filter (\<lambda>s. s_course s = c) (students d))))
       (remdups (map s_course (students d)))"
  "successRate (fst (getDashboardStats d)) =
     (if length (students d) > 0
      then Math_round (js_times (js_divide
             (of_nat (length (filter (\<lambda>s. s_status s = ''inactive'') (students d))))
             (of_nat (length (students d)))) 100)
      else 0)"
  by (simp_all add: getDashboardStats_def Student_countDocuments_def Course_countDocuments_def
        Student_aggregate_group_course_def called_def)

text \<open>
  Claim C10: when every student's status is \<open>active\<close> or \<open>inactive\<close>, the statistics
  satisfy \<open>totalStudents = activeStudents + graduates\<close>, and the counts of \<open>courseCounts\<close>
  sum to \<open>totalStudents\<close>.
\<close>

theorem dashboard_counts_add_up:
  assumes "\<forall>s \<in> set (students d). s_status s = ''active'' \<or> s_status s = ''inactive''"
  shows "totalStudents (fst (getDashboardStats d)) =
           activeStudents (fst (getDashboardStats d)) + graduates (fst (getDashboardStats d)) \<and>
         sum_list (map snd (courseCounts (fst (getDashboardStats d)))) =
           totalStudents (fst (getDashboardStats d))"
proof -
  have "length (students d) =
      length (filter (\<lambda>s. s_status s = ''active'') (students d)) +
      length (filter (\<lambda>s. s_status s = ''inactive'') (students d))"
    using assms by (intro two_way_split) auto
  moreover have "sum_list (map snd (map (\<lambda>c. (c, length (filter (\<lambda>s. s_course s = c) (students d))))
       (remdups (map s_course (students d))))) = length (students d)"
    using group_counts_sum [of s_course "students d"] by (simp add: comp_def)
  ultimately show ?thesis
    by (simp add: getDashboardStats_fields)
qed

theorem dashboard_counts_add_up_witness:
  "totalStudents (fst (getDashboardStats school)) = 3 \<and>
   activeStudents (fst (getDashboardStats school)) = 2 \<and>
   graduates (fst (getDashboardStats school)) = 1 \<and>
   courseCounts (fst (getDashboardStats school)) =
     [(''0000000000000000000000a1'', 1), (''Algebra'', 2)] \<and>
   sum_list (map snd (courseCounts (fst (getDashboardStats school)))) = 3"
proof -
  have st: "\<forall>s \<in> set (students school). s_status s = ''active'' \<or> s_status s = ''inactive''"
    by (simp add: school_def ada_def bob_def cyd_def)
  have "totalStudents (fst (getDashboardStats school)) = 3"
    by (simp add: getDashboardStats_fields school_def)
  moreover have "activeStudents (fst (getDashboardStats school)) = 2"
    by (simp add: getDashboardStats_fields school_def ada_def bob_def cyd_def)
  moreover have "courseCounts (fst (getDashboardStats school)) =
     [(''0000000000000000000000a1'', 1), (''Algebra'', 2)]"
    by (simp add: getDashboardStats_fields school_def ada_def bob_def cyd_def)
  ultimately show ?thesis
    using dashboard_counts_add_up [OF st] by simp
qed








section \<open>Unique emails\<close>

lemma set_remove_first_subset: "set (remove_first P xs) \<subseteq> set xs"
  by (induction xs) auto

lemma distinct_map_remove_first:
  "distinct (map f xs) \<Longrightarrow> distinct (map f (remove_first P xs))"
proof (induction xs)
  case Nil
  then show ?case by simp
next
  case (Cons x xs)
  have "f ` set (remove_first P xs) \<subseteq> f ` set xs"
    using set_remove_first_subset [of P xs] by blast
  with Cons show ?case by auto
qed

lemma set_replace_first_subset: "set (replace_first P y xs) \<subseteq> insert y (set xs)"
  by (induction xs) auto

lemma distinct_map_replace_first:
  assumes "distinct (map f xs)" and "find P xs = Some x0"
    and "f y = f x0 \<or> f y \<notin> set (map f (remove_first P xs))"
  shows "distinct (map f (replace_first P y xs))"
  using assms
proof (induction xs)
  case Nil
  then show ?case by simp
next
  case (Cons x xs)
  show ?case
  proof (cases "P x")
    case True
    with Cons.prems show ?thesis by auto
  next
    case False
    with Cons.prems have found: "find P xs = Some x0" by simp
    then have x0: "x0 \<in> set xs" by (auto simp: find_Some_iff)
    from Cons.prems False have fy: "f y = f x0 \<or> f y \<notin> set (map f (remove_first P xs))"
      by auto
    from Cons.prems have dx: "f x \<notin> f ` set xs" and dxs: "distinct (map f xs)" by auto
    have "f x0 \<in> f ` set xs" using x0 by simp
    with dx have "f x0 \<noteq> f x" by auto
    then have "f y \<noteq> f x"
      using Cons.prems(3) False by auto
    moreover have "f ` set (replace_first P y xs) \<subseteq> insert (f y) (f ` set xs)"
      using set_replace_first_subset [of P y xs] by blast
    ultimately have "f x \<notin> f ` set (replace_first P y xs)"
      using dx by auto
    moreover have "distinct (map f (replace_first P y xs))"
      using Cons.IH [OF dxs found fy] .
    ultimately show ?thesis using False by simp
  qed
qed

lemma Student_save_emails:
  "emails_unique d \<Longrightarrow> emails_unique (snd (Student_save now new_id b d))"
  by (auto simp: emails_unique_def Student_save_def called_def Let_def split: option.splits)

lemma Student_findByIdAndDelete_emails:
  "emails_unique d \<Longrightarrow> emails_unique (snd (Student_findByIdAndDelete cast idstr d))"
  by (auto simp: emails_unique_def Student_findByIdAndDelete_def called_def Let_def
           distinct_map_remove_first split: option.splits)

lemma Student_findByIdAndUpdate_emails:
  assumes "emails_unique d"
  shows "emails_unique (snd (Student_findByIdAndUpdate cast now idstr b d))"
proof (cases "cast idstr")
  case None
  with assms show ?thesis
    by (simp add: emails_unique_def Student_findByIdAndUpdate_def called_def Let_def)
next
  case (Some oid)
  show ?thesis
  proof (cases "find (\<lambda>s. s_id s = oid) (students d)")
    case None
    with assms Some show ?thesis
      by (simp add: emails_unique_def Student_findByIdAndUpdate_def called_def Let_def)
  next
    case (Some s)
    let ?s1 = "update_student now b s"
    let ?P = "\<lambda>s. s_id s = oid"
    show ?thesis
    proof (cases "s_email ?s1 \<noteq> s_email s \<and>
        s_email ?s1 \<in> set (map s_email (remove_first ?P (students d)))")
      case True
      with assms \<open>cast idstr = Some oid\<close> Some show ?thesis
        by (simp add: emails_unique_def Student_findByIdAndUpdate_def called_def Let_def)
    next
      case False
      then have "s_email ?s1 = s_email s \<or>
          s_email ?s1 \<notin> set (map s_email (remove_first ?P (students d)))"
        by blast
      with assms Some have "distinct (map s_email (replace_first ?P ?s1 (students d)))"
        unfolding emails_unique_def by (intro distinct_map_replace_first)
      with assms False \<open>cast idstr = Some oid\<close> Some show ?thesis
        by (auto simp: emails_unique_def Student_findByIdAndUpdate_def called_def Let_def)
    qed
  qed
qed

lemma api_emails_unique:
  assumes "emails_unique d"
  shows "emails_unique (snd (api rt req d))"
proof (cases req)
  case GET_courses
  with assms show ?thesis
    by (simp add: answered_def get_api_courses_def Course_find_def emails_unique_def called_def)
next
  case (POST_courses body)
  with assms show ?thesis
    by (auto simp: answered_def post_api_courses_def Course_save_def emails_unique_def
          called_def Let_def split: option.splits)
next
  case (PUT_courses_id idstr body)
  with assms show ?thesis
    by (auto simp: answered_def put_api_courses_id_def Course_findByIdAndUpdate_def
          emails_unique_def called_def Let_def split: option.splits)
next
  case (DELETE_courses_id idstr)
  with assms show ?thesis
    by (auto simp: answered_def delete_api_courses_id_def Student_countDocuments_def
          Course_findByIdAndDelete_def emails_unique_def called_def Let_def split: option.splits)
next
  case (GET_courses_id idstr)
  with assms show ?thesis
    by (auto simp: answered_def get_api_courses_id_def Course_findById_def emails_unique_def
          called_def split: option.splits)
next
  case GET_students
  with assms show ?thesis
    by (simp add: answered_def get_api_students_def Student_find_def emails_unique_def called_def)
next
  case (POST_students body)
  have "snd (post_api_students (clock rt) (fresh_id rt) body d) =
      snd (Student_save (clock rt) (fresh_id rt) body d)"
    by (simp add: post_api_students_def split: prod.splits sum.splits)
  with assms POST_students show ?thesis
    by (simp add: answered_def Student_save_emails)
next
  case (PUT_students_id idstr body)
  have "snd (put_api_students_id (lib_cast rt) (clock rt) idstr body d) =
      snd (Student_findByIdAndUpdate (lib_cast rt) (clock rt) idstr body d)"
    by (simp add: put_api_students_id_def split: prod.splits sum.splits option.splits)
  with assms PUT_students_id show ?thesis
    by (simp add: answered_def Student_findByIdAndUpdate_emails)
next
  case (DELETE_students_id idstr)
  have "snd (delete_api_students_id (lib_cast rt) idstr d) =
      snd (Student_findByIdAndDelete (lib_cast rt) idstr d)"
    by (simp add: delete_api_students_id_def split: prod.splits sum.splits option.splits)
  with assms DELETE_students_id show ?thesis
    by (simp add: answered_def Student_findByIdAndDelete_emails)
next
  case (GET_students_search q)
  with assms show ?thesis
    by (auto simp: get_api_students_search_def Student_find_def emails_unique_def called_def
          split: option.splits)
next
  case (GET_students_id idstr)
  with assms show ?thesis
    by (auto simp: answered_def get_api_students_id_def Student_findById_def emails_unique_def
          called_def split: option.splits)
next
  case GET_dashboard_stats
  with assms show ?thesis
    by (simp add: answered_def get_api_dashboard_stats_def getDashboardStats_def
          Student_countDocuments_def Course_countDocuments_def Student_aggregate_group_course_def
          emails_unique_def called_def)
qed

lemma post_duplicate_email:
  assumes "\<exists>s \<in> set (students d). s_email s = e" and "b_email body = Some e"
  shows "fst (fst (post_api_students now new_id body d)) = 400"
    and "students (snd (post_api_students now new_id body d)) = students d"
    and "new_Student now new_id body \<noteq> None \<Longrightarrow>
         fst (post_api_students now new_id body d) = (400, ErrorMessage DuplicateKeyError)"
    and "new_Student now new_id body = None \<Longrightarrow>
         fst (post_api_students now new_id body d) = (400, ErrorMessage ValidationError)"
proof -
  have em: "s_email doc = e" if "new_Student now new_id body = Some doc" for doc
    using that assms(2)
    by (auto simp: new_Student_def split: option.splits castable.splits if_splits)
  show "fst (fst (post_api_students now new_id body d)) = 400"
    using assms(1) em
    by (auto simp: post_api_students_def Student_save_def called_def Let_def split: option.splits)
  show "students (snd (post_api_students now new_id body d)) = students d"
    using assms(1) em
    by (auto simp: post_api_students_def Student_save_def called_def Let_def split: option.splits)
  show "fst (post_api_students now new_id body d) = (400, ErrorMessage DuplicateKeyError)"
    if "new_Student now new_id body \<noteq> None"
    using that assms(1) em
    by (auto simp: post_api_students_def Student_save_def called_def Let_def split: option.splits)
  show "fst (post_api_students now new_id body d) = (400, ErrorMessage ValidationError)"
    if "new_Student now new_id body = None"
    using that
    by (simp add: post_api_students_def Student_save_def called_def Let_def)
qed

text \<open>
  Claim C7, as the code has it: when some student already has email \<open>e\<close>, POST
  \<open>/api/students\<close> with a body whose email is \<open>e\<close> answers 400 and persists nothing;
  the error is the store's duplicate-key error when the body passes the validation of the
  schema, and the validation error when it does not. And every request to the API keeps
  the emails of the students distinct.
\<close>

theorem duplicate_email_is_refused:
  "(\<forall>e. e \<in> set (map s_email (students d)) \<and> b_email body = Some e \<longrightarrow>
      fst (post_api_students now new_id body d) =
        (400, ErrorMessage (if new_Student now new_id body = None
                            then ValidationError else DuplicateKeyError)) \<and>
      students (snd (post_api_students now new_id body d)) = students d) \<and>
   (emails_unique d \<longrightarrow> emails_unique (snd (api rt req d)))"
proof -
  have "fst (post_api_students now new_id body d) =
        (400, ErrorMessage (if new_Student now new_id body = None
                            then ValidationError else DuplicateKeyError)) \<and>
      students (snd (post_api_students now new_id body d)) = students d"
    if "e \<in> set (map s_email (students d)) \<and> b_email body = Some e" for e
  proof -
    from that have ex: "\<exists>s \<in> set (students d). s_email s = e" and b: "b_email body = Some e"
      by auto
    show ?thesis
      using post_duplicate_email(2-4) [OF ex b, of now new_id] by auto
  qed
  then show ?thesis
    using api_emails_unique by blast
qed

theorem duplicate_email_is_refused_witness:
  "fst (post_api_students 9000 4 ada_again school) = (400, ErrorMessage DuplicateKeyError) \<and>
   students (snd (post_api_students 9000 4 ada_again school)) = [ada, bob, cyd] \<and>
   fst (api office (PUT_students_id ''000000000000000000000002'' take_adas_email) school) =
     Some (400, ErrorMessage DuplicateKeyError) \<and>
   emails_unique (snd (api office (PUT_students_id ''000000000000000000000002'' take_adas_email) school))"
proof -
  have taken: "''ada@example.org'' \<in> set (map s_email (students school)) \<and>
      b_email ada_again = Some ''ada@example.org''"
    by (simp add: school_def ada_def ada_again_def)
  have valid: "new_Student 9000 4 ada_again \<noteq> None"
    by (simp add: new_Student_def ada_again_def status_of_def)
  have uniq: "emails_unique school"
    by (simp add: emails_unique_def school_def ada_def bob_def cyd_def)
  have put: "fst (api office (PUT_students_id ''000000000000000000000002'' take_adas_email) school) =
     Some (400, ErrorMessage DuplicateKeyError)"
    by (simp add: answered_def put_api_students_id_def Student_findByIdAndUpdate_def office_def
          hex24_2 take_adas_email_def school_def ada_def bob_def cyd_def called_def Let_def
          update_student_def or_else_def given_or_def)
  note inst = duplicate_email_is_refused [of school ada_again 9000 4 office
        "PUT_students_id ''000000000000000000000002'' take_adas_email"]
  from inst taken have
    "fst (post_api_students 9000 4 ada_again school) =
        (400, ErrorMessage (if new_Student 9000 4 ada_again = None
                            then ValidationError else DuplicateKeyError)) \<and>
      students (snd (post_api_students 9000 4 ada_again school)) = students school"
    by blast
  with valid have post: "fst (post_api_students 9000 4 ada_again school) =
        (400, ErrorMessage DuplicateKeyError) \<and>
      students (snd (post_api_students 9000 4 ada_again school)) = [ada, bob, cyd]"
    by (simp add: school_def)
  from inst uniq have "emails_unique
      (snd (api office (PUT_students_id ''000000000000000000000002'' take_adas_email) school))"
    by blast
  with post put show ?thesis by blast
qed

text \<open>
  The claim as stated fails for a body that has Ada's email and no name: the validation
  fails before the insert, so the 400 carries the validation error, not the uniqueness
  error.
\<close>

theorem duplicate_email_invalid_body_counterexample:
  "''ada@example.org'' \<in> set (map s_email (students school)) \<and>
   b_email nameless = Some ''ada@example.org'' \<and>
   fst (post_api_students 9000 4 nameless school) = (400, ErrorMessage ValidationError) \<and>
   fst (post_api_students 9000 4 nameless school) \<noteq> (400, ErrorMessage DuplicateKeyError)"
  by (simp add: school_def ada_def nameless_def post_api_students_def Student_save_def
        new_Student_def called_def)

section \<open>Distinct identifiers\<close>

text \<open>
  The store keeps the \<^verbatim>\<open>_id\<close> of the courses distinct under every request to the API:
  a state reached from one with distinct identifiers has distinct identifiers. (This is
  the assumption on the store under which the deletion of a course is followed by a 404.)
\<close>

lemma map_replace_first_same_key:
  "f y = k \<Longrightarrow> map f (replace_first (\<lambda>x. f x = k) y xs) = map f xs"
  by (induction xs) auto

lemma Course_save_ids:
  "distinct (map c_id (courses d)) \<Longrightarrow>
   distinct (map c_id (courses (snd (Course_save now new_id b d))))"
  by (auto simp: Course_save_def called_def Let_def split: option.splits)

lemma Course_findByIdAndDelete_ids:
  "distinct (map c_id (courses d)) \<Longrightarrow>
   distinct (map c_id (courses (snd (Course_findByIdAndDelete cast idstr d))))"
  by (auto simp: Course_findByIdAndDelete_def called_def Let_def distinct_map_remove_first
           split: option.splits)

lemma Course_findByIdAndUpdate_ids:
  assumes "distinct (map c_id (courses d))"
  shows "distinct (map c_id (courses (snd (Course_findByIdAndUpdate cast now idstr b d))))"
proof -
  have "map c_id (replace_first (\<lambda>c. c_id c = oid) (update_course now b c) (courses d)) =
      map c_id (courses d)"
    if "find (\<lambda>c. c_id c = oid) (courses d) = Some c" for oid c
  proof -
    from that have "c_id c = oid" by (auto simp: find_Some_iff)
    then have "c_id (update_course now b c) = oid" by (simp add: update_course_def)
    then show ?thesis by (rule map_replace_first_same_key)
  qed
  with assms show ?thesis
    by (auto simp: Course_findByIdAndUpdate_def called_def Let_def split: option.splits)
qed

lemma api_course_ids_distinct:
  assumes "distinct (map c_id (courses d))"
  shows "distinct (map c_id (courses (snd (api rt req d))))"
proof (cases req)
  case GET_courses
  with assms show ?thesis
    by (simp add: answered_def get_api_courses_def Course_find_def called_def)
next
  case (POST_courses body)
  have "snd (post_api_courses (clock rt) (fresh_id rt) body d) =
      snd (Course_save (clock rt) (fresh_id rt) body d)"
    by (simp add: post_api_courses_def split: prod.splits sum.splits)
  with assms POST_courses show ?thesis
    by (simp add: answered_def Course_save_ids)
next
  case (PUT_courses_id idstr body)
  have "snd (put_api_courses_id (lib_cast rt) (clock rt) idstr body d) =
      snd (Course_findByIdAndUpdate (lib_cast rt) (clock rt) idstr body d)"
    by (simp add: put_api_courses_id_def split: prod.splits sum.splits option.splits)
  with assms PUT_courses_id show ?thesis
    by (simp add: answered_def Course_findByIdAndUpdate_ids)
next
  case (DELETE_courses_id idstr)
  have "courses (snd (delete_api_courses_id (lib_cast rt) idstr d)) = courses d \<or>
      courses (snd (delete_api_courses_id (lib_cast rt) idstr d)) =
        courses (snd (Course_findByIdAndDelete (lib_cast rt) idstr d))"
    by (auto simp: delete_api_courses_id_def Student_countDocuments_def
          Course_findByIdAndDelete_def called_def Let_def split: option.splits)
  with assms DELETE_courses_id show ?thesis
    using Course_findByIdAndDelete_ids [OF assms, of "lib_cast rt" idstr]
    by (auto simp: answered_def)
next
  case (GET_courses_id idstr)
  with assms show ?thesis
    by (auto simp: answered_def get_api_courses_id_def Course_findById_def called_def
          split: option.splits)
next
  case GET_students
  with assms show ?thesis
    by (simp add: answered_def get_api_students_def Student_find_def called_def)
next
  case (POST_students body)
  with assms show ?thesis
    by (auto simp: answered_def post_api_students_def Student_save_def called_def Let_def
          split: option.splits)
next
  case (PUT_students_id idstr body)
  with assms show ?thesis
    by (auto simp: answered_def put_api_students_id_def Student_findByIdAndUpdate_def
          called_def Let_def split: option.splits)
next
  case (DELETE_students_id idstr)
  with assms show ?thesis
    by (auto simp: answered_def delete_api_students_id_def Student_findByIdAndDelete_def
          called_def Let_def split: option.splits)
next
  case (GET_students_search q)
  with assms show ?thesis
    by (auto simp: get_api_students_search_def Student_find_def called_def
          split: option.splits)
next
  case (GET_students_id idstr)
  with assms show ?thesis
    by (auto simp: answered_def get_api_students_id_def Student_findById_def called_def
          split: option.splits)
next
  case GET_dashboard_stats
  with assms show ?thesis
    by (simp add: answered_def get_api_dashboard_stats_def getDashboardStats_def
          Student_countDocuments_def Course_countDocuments_def Student_aggregate_group_course_def
          called_def)
qed

section \<open>The search\<close>

lemma match_here_iff:
  "match_here p s \<longleftrightarrow> (\<exists>after. map lower_char s = map lower_char p @ after)"
  by (induction p s rule: match_here.induct) auto

lemma search_literal_iff: "search_literal p s \<longleftrightarrow> literal_substring_ci s p"
proof (induction s)
  case Nil
  show ?case by (cases p) (simp_all add: literal_substring_ci_def)
next
  case (Cons c cs)
  have "literal_substring_ci (c # cs) p \<longleftrightarrow>
      (\<exists>after. map lower_char (c # cs) = map lower_char p @ after) \<or> literal_substring_ci cs p"
    unfolding literal_substring_ci_def
  proof
    assume "\<exists>before after. map lower_char (c # cs) = before @ map lower_char p @ after"
    then obtain before after where
      eq: "map lower_char (c # cs) = before @ map lower_char p @ after" by blast
    show "(\<exists>after. map lower_char (c # cs) = map lower_char p @ after) \<or>
        (\<exists>before after. map lower_char cs = before @ map lower_char p @ after)"
    proof (cases before)
      case Nil
      with eq show ?thesis by auto
    next
      case (Cons b bs)
      with eq have "map lower_char cs = bs @ map lower_char p @ after" by simp
      then show ?thesis by blast
    qed
  next
    assume "(\<exists>after. map lower_char (c # cs) = map lower_char p @ after) \<or>
        (\<exists>before after. map lower_char cs = before @ map lower_char p @ after)"
    then show "\<exists>before after. map lower_char (c # cs) = before @ map lower_char p @ after"
    proof
      assume "\<exists>after. map lower_char (c # cs) = map lower_char p @ after"
      then obtain after where "map lower_char (c # cs) = [] @ map lower_char p @ after" by auto
      then show ?thesis by blast
    next
      assume "\<exists>before after. map lower_char cs = before @ map lower_char p @ after"
      then obtain before after where "map lower_char cs = before @ map lower_char p @ after"
        by blast
      then have "map lower_char (c # cs) = (lower_char c # before) @ map lower_char p @ after"
        by simp
      then show ?thesis by blast
    qed
  qed
  note step = this
  have "search_literal p (c # cs) \<longleftrightarrow> match_here p (c # cs) \<or> search_literal p cs"
    by (simp only: search_literal.simps)
  also have "\<dots> \<longleftrightarrow> (\<exists>after. map lower_char (c # cs) = map lower_char p @ after) \<or>
      literal_substring_ci cs p"
    by (simp only: match_here_iff Cons.IH)
  also have "\<dots> \<longleftrightarrow> literal_substring_ci (c # cs) p"
    by (simp only: step [symmetric])
  finally show ?case .
qed

lemma split_alternatives_no_bar:
  "CHR ''|'' \<notin> set q \<Longrightarrow> split_alternatives q = [q]"
  by (induction q) auto

lemma regex_i_literal:
  assumes "\<forall>c \<in> set q. c \<notin> set regex_metachars \<and> c \<noteq> CHR 0x00"
  shows "regex_i q = Some (\<lambda>subject. literal_substring_ci subject q)"
proof -
  have "CHR ''|'' \<in> set regex_metachars" by (simp add: regex_metachars_def)
  with assms have "CHR ''|'' \<notin> set q" by blast
  then have "split_alternatives q = [q]" by (rule split_alternatives_no_bar)
  with assms show ?thesis
    by (auto simp: regex_i_def search_literal_iff)
qed

lemma is_prefix_iff: "is_prefix xs ys \<longleftrightarrow> (\<exists>after. ys = xs @ after)"
  by (induction xs ys rule: is_prefix.induct) auto

lemma is_infix_iff: "is_infix xs ys \<longleftrightarrow> (\<exists>before after. ys = before @ xs @ after)"
proof (induction ys)
  case Nil
  show ?case by auto
next
  case (Cons y ys)
  have "(\<exists>before after. y # ys = before @ xs @ after) \<longleftrightarrow>
      (\<exists>after. y # ys = xs @ after) \<or> (\<exists>before after. ys = before @ xs @ after)"
  proof
    assume "\<exists>before after. y # ys = before @ xs @ after"
    then obtain before after where eq: "y # ys = before @ xs @ after" by blast
    show "(\<exists>after. y # ys = xs @ after) \<or> (\<exists>before after. ys = before @ xs @ after)"
    proof (cases before)
      case Nil
      with eq show ?thesis by auto
    next
      case (Cons b bs)
      with eq have "ys = bs @ xs @ after" by simp
      then show ?thesis by blast
    qed
  next
    assume "(\<exists>after. y # ys = xs @ after) \<or> (\<exists>before after. ys = before @ xs @ after)"
    then show "\<exists>before after. y # ys = before @ xs @ after"
    proof
      assume "\<exists>after. y # ys = xs @ after"
      then obtain after where "y # ys = [] @ xs @ after" by auto
      then show ?thesis by blast
    next
      assume "\<exists>before after. ys = before @ xs @ after"
      then obtain before after where "ys = before @ xs @ after" by blast
      then have "y # ys = (y # before) @ xs @ after" by simp
      then show ?thesis by blast
    qed
  qed
  note step = this
  have "is_infix xs (y # ys) \<longleftrightarrow> is_prefix xs (y # ys) \<or> is_infix xs ys"
    by (simp only: is_infix.simps)
  also have "\<dots> \<longleftrightarrow> (\<exists>after. y # ys = xs @ after) \<or> (\<exists>before after. ys = before @ xs @ after)"
    by (simp only: is_prefix_iff Cons.IH)
  also have "\<dots> \<longleftrightarrow> (\<exists>before after. y # ys = before @ xs @ after)"
    by (simp only: step [symmetric])
  finally show ?case .
qed

lemma contains_ci_iff: "contains_ci field q \<longleftrightarrow> literal_substring_ci field q"
  by (simp only: contains_ci_def literal_substring_ci_def is_infix_iff)

text \<open>
  Claim C3, as the code has it: for every store and every query string that has no
  metacharacter of regular expressions (and no NUL), the search answers 200 with exactly
  the students,
  in the order of the collection and each once, whose name, email or course contains
  the query as a literal substring, case-insensitively.
\<close>

theorem search_by_literal_query:
  assumes "\<forall>c \<in> set q. c \<notin> set regex_metachars \<and> c \<noteq> CHR 0x00"
  shows "fst (get_api_students_search q d) =
     Some (200, StudentDocs (filter
       (\<lambda>s. literal_substring_ci (s_name s) q \<or> literal_substring_ci (s_email s) q \<or>
            literal_substring_ci (s_course s) q) (students d)))"
proof -
  have "filter (\<lambda>s. literal_substring_ci (s_name s) q \<or> literal_substring_ci (s_course s) q \<or>
            literal_substring_ci (s_email s) q) (students d) =
        filter (\<lambda>s. literal_substring_ci (s_name s) q \<or> literal_substring_ci (s_email s) q \<or>
            literal_substring_ci (s_course s) q) (students d)"
    by (rule filter_cong) auto
  then show ?thesis
    by (simp add: get_api_students_search_def regex_i_literal [OF assms] Student_find_def)
qed

theorem search_by_literal_query_witness:
  "fst (get_api_students_search ''ALG'' school) = Some (200, StudentDocs [bob, cyd])"
proof -
  have lit: "\<forall>c \<in> set ''ALG''. c \<notin> set regex_metachars \<and> c \<noteq> CHR 0x00"
    by (simp add: regex_metachars_def)
  have "filter (\<lambda>s. contains_ci (s_name s) ''ALG'' \<or> contains_ci (s_email s) ''ALG'' \<or>
      contains_ci (s_course s) ''ALG'') (students school) = [bob, cyd]"
    by code_simp
  then have "filter (\<lambda>s. literal_substring_ci (s_name s) ''ALG'' \<or>
      literal_substring_ci (s_email s) ''ALG'' \<or> literal_substring_ci (s_course s) ''ALG'')
      (students school) = [bob, cyd]"
    by (simp only: contains_ci_iff)
  with search_by_literal_query [OF lit, of school] show ?thesis by simp
qed

text \<open>
  The claim as stated fails for a query with a metacharacter: the store reads \<open>a|b\<close> as
  an alternation, so the search returns all three students of the school, though no
  field of any of them contains the three characters \<open>a|b\<close>.
\<close>

theorem search_reads_query_as_regex_counterexample:
  "fst (get_api_students_search ''a|b'' school) = Some (200, StudentDocs [ada, bob, cyd]) \<and>
   filter (\<lambda>s. contains_ci (s_name s) ''a|b'' \<or> contains_ci (s_email s) ''a|b'' \<or>
      contains_ci (s_course s) ''a|b'') (students school) = []"
  by code_simp

end
